theory Spec2Isabelle
  imports Complex_Main "HOL-Library.Sublist"
begin

section \<open>JavaScript values\<close>

text \<open>
  The values a decoded JSON body can hold, and \<open>undefined\<close>, which a member access yields
  for a property the value does not have. A finite number is a rational (both zeros are
  \<open>JNum 0\<close>); a literal too large for a double decodes to an infinity. An object lists its
  own properties, each name once.
\<close>

datatype jsval =
    JUndefined
  | JNull
  | JBool bool
  | JNum rat
  | JInfinity bool
  | JStr string
  | JArr "jsval list"
  | JObj "(string \<times> jsval) list"

datatype js_error = TypeError | SyntaxError

text \<open>The test of \<open>if (v)\<close>, \<open>!v\<close> and \<open>a && b\<close>.\<close>

fun truthy :: "jsval \<Rightarrow> bool" where
  "truthy JUndefined = False"
| "truthy JNull = False"
| "truthy (JBool b) = b"
| "truthy (JNum q) = (q \<noteq> 0)"
| "truthy (JInfinity _) = True"
| "truthy (JStr s) = (s \<noteq> [])"
| "truthy (JArr _) = True"
| "truthy (JObj _) = True"

text \<open>
  The member access \<open>v.k\<close>, for a name \<open>k\<close> that no built-in prototype defines (the
  program reads \<open>response\<close> and \<open>chart\<close> only): it throws on \<open>null\<close> and
  \<open>undefined\<close>, reads an own property of an object, and is \<open>undefined\<close> elsewhere.
\<close>

fun get_prop :: "jsval \<Rightarrow> string \<Rightarrow> js_error + jsval" where
  "get_prop JUndefined k = Inl TypeError"
| "get_prop JNull k = Inl TypeError"
| "get_prop (JObj kvs) k = Inr (case map_of kvs k of None \<Rightarrow> JUndefined | Some v \<Rightarrow> v)"
| "get_prop v k = Inr JUndefined"

section \<open>Data of the component\<close>

text \<open>
  A chat message is an object tagged by its \<open>type\<close>: \<open>{type: "user", text}\<close>,
  \<open>{type: "bot", text}\<close> or \<open>{type: "bot-chart", chartSpec}\<close>. The text of a user
  message is the input string; the text of a bot message is whatever \<open>data.response\<close> is.
\<close>

datatype message =
    User_message string
  | Bot_message jsval
  | Bot_chart_message jsval

fun type_of :: "message \<Rightarrow> string" where
  "type_of (User_message t) = ''user''"
| "type_of (Bot_message t) = ''bot''"
| "type_of (Bot_chart_message c) = ''bot-chart''"

text \<open>A browser \<open>File\<close>: its name, its declared media type, and the text a reader gets from it.\<close>

record File =
  name :: string
  type :: string
  content :: string

text \<open>
  A call of \<open>fetch(resource, {method, body, headers})\<close>. A JSON body is kept as the value
  handed to \<open>JSON.stringify\<close>, a multipart body as the fields of the \<open>FormData\<close>.
\<close>

datatype body = Json_body jsval | Form_data "(string \<times> File) list"

record request =
  resource :: string
  http_method :: string
  body :: body
  headers :: "(string \<times> string) list"

text \<open>
  A callback waiting for its event, with the variables its closure captured when it was
  created: the \<open>.then(data => ...)\<close> of a query holds \<open>response\<close> and \<open>newMessage\<close>,
  the \<open>.catch\<close> of an upload holds \<open>response\<close>, and \<open>reader.onload\<close> belongs to the
  reader of one file.
\<close>

datatype callback =
    Query_then "message list" message
  | Upload_catch "message list"
  | Reader_onload File

section \<open>JavaScript objects\<close>

text \<open>
  A row of the preview is a plain object, and the program shows it through its own
  property keys: the table head is \<open>Object.keys(csvData[0] || {})\<close> and the cells of a
  row are \<open>Object.values(row)\<close>. The language fixes the order of the keys. A key that is
  an array index (the decimal numeral, without leading zeros, of a number below
  \<open>2^32 - 1\<close>) is enumerated before every other key, in ascending numeric order; the
  other keys follow in the order in which they were created. An object is the list of its
  properties in that order.
\<close>

definition digit :: "char \<Rightarrow> bool" where
  "digit c = (c \<in> set ''0123456789'')"

fun decimal :: "string \<Rightarrow> int \<Rightarrow> int" where
  "decimal [] n = n"
| "decimal (c # cs) n = decimal cs (10 * n + (of_char c - 48))"

definition array_index :: "string \<Rightarrow> int option" where
  "array_index k =
     (if k \<noteq> [] \<and> list_all digit k \<and> (k = ''0'' \<or> hd k \<noteq> CHR ''0'') \<and>
         decimal k 0 < 4294967295
      then Some (decimal k 0) else None)"

fun insert_index :: "int \<Rightarrow> string \<Rightarrow> 'v \<Rightarrow> (string \<times> 'v) list \<Rightarrow> (string \<times> 'v) list" where
  "insert_index n k v [] = [(k, v)]"
| "insert_index n k v ((k', v') # kvs) =
     (case array_index k' of
        Some m \<Rightarrow> if m < n then (k', v') # insert_index n k v kvs else (k, v) # (k', v') # kvs
      | None \<Rightarrow> (k, v) # (k', v') # kvs)"

fun overwrite :: "string \<Rightarrow> 'v \<Rightarrow> (string \<times> 'v) list \<Rightarrow> (string \<times> 'v) list" where
  "overwrite k v [] = []"
| "overwrite k v ((k', v') # kvs) =
     (if k' = k then (k', v) # kvs else (k', v') # overwrite k v kvs)"

text \<open>
  Defining the property \<open>k\<close> of an object. A key the object has keeps its place and
  takes the new value.
\<close>

definition define_property :: "(string \<times> 'v) list \<Rightarrow> string \<Rightarrow> 'v \<Rightarrow> (string \<times> 'v) list" where
  "define_property obj k v =
     (if k \<in> set (map fst obj) then overwrite k v obj
      else case array_index k of
        Some n \<Rightarrow> insert_index n k v obj
      | None \<Rightarrow> obj @ [(k, v)])"


definition Object_values :: "(string \<times> 'v) list \<Rightarrow> 'v list" where
  "Object_values obj = map snd obj"

section \<open>The CSV parser\<close>

text \<open>
  Modelled from the spec: \<open>d3.csvParse\<close> and \<open>d3.autoType\<close> belong to the package
  d3-dsv, which the program imports and which is not under src/. The spec (4.2) calls them
  a header-aware CSV parser with automatic type inference. The model follows the
  algorithm of the package: \<open>parseRows\<close> cuts the text into records of fields, the first
  record names the columns, and every later record becomes a row object made by the
  object literal \<open>{name0: d[0] || "", name1: d[1] || "", ...}\<close>, whose values
  \<open>autoType\<close> then converts. Only the conversion of one field to a typed value, which
  computes with floating point numbers and dates, is left as a parameter.
\<close>

definition QUOTE :: char where
  "QUOTE = CHR 0x22"

definition NEWLINE :: char where
  "NEWLINE = CHR 0x0A"

definition RETURN :: char where
  "RETURN = CHR 0x0D"

definition DELIMITER :: char where
  "DELIMITER = CHR '',''"

text \<open>
  Modelled from the spec: \<open>text.charCodeAt(i)\<close>, with \<open>None\<close> for the \<open>NaN\<close> of a
  position outside the text, and \<open>text.slice(a, b)\<close> for \<open>0 \<le> a\<close>.
\<close>

definition charCodeAt :: "string \<Rightarrow> nat \<Rightarrow> char option" where
  "charCodeAt text i = (if i < length text then Some (text ! i) else None)"

definition slice :: "string \<Rightarrow> nat \<Rightarrow> nat \<Rightarrow> string" where
  "slice text a b = take (b - a) (drop a text)"

text \<open>Modelled from the spec: \<open>.replace(/""/g, "\"")\<close> on a quoted field.\<close>

fun unescape :: "string \<Rightarrow> string" where
  "unescape (c # c' # cs) =
     (if c = QUOTE \<and> c' = QUOTE then QUOTE # unescape cs else c # unescape (c' # cs))"
| "unescape cs = cs"

text \<open>What ends a field: the delimiter, the end of the line, or the end of the text.\<close>

datatype follow = Delimiter | EOL | EOF

text \<open>
  Modelled from the spec: the loop of the tokenizer over a quoted field,
  \<open>while (I++ < N && text.charCodeAt(I) !== QUOTE || text.charCodeAt(++I) === QUOTE);\<close>,
  from the position \<open>I\<close> of the opening quote to the position after the closing one.
\<close>

function scan_quote :: "string \<Rightarrow> nat \<Rightarrow> nat \<Rightarrow> nat" where
  "scan_quote text N I =
     (if I < N \<and> charCodeAt text (I + 1) \<noteq> Some QUOTE then scan_quote text N (I + 1)
      else if charCodeAt text (I + 2) = Some QUOTE then scan_quote text N (I + 2)
      else I + 2)"
  by pat_completeness auto
termination
  by (relation "measure (\<lambda>(text, N, I). max N (length text) + 2 - I)")
     (auto simp: charCodeAt_def split: if_splits)

text \<open>
  Modelled from the spec: the loop of the tokenizer over a field without quotes, which
  starts at \<open>j\<close> and ends at the next delimiter, line end or at \<open>N\<close>. The result is the
  field, the position after it, and what ended it.
\<close>

function scan_plain :: "string \<Rightarrow> nat \<Rightarrow> nat \<Rightarrow> nat \<Rightarrow> string \<times> nat \<times> follow" where
  "scan_plain text N j I =
     (if I < N then
        (if charCodeAt text I = Some NEWLINE then (slice text j I, I + 1, EOL)
         else if charCodeAt text I = Some RETURN then
           (slice text j I, (if charCodeAt text (I + 1) = Some NEWLINE then I + 2 else I + 1), EOL)
         else if charCodeAt text I \<noteq> Some DELIMITER then scan_plain text N j (I + 1)
         else (slice text j I, I + 1, Delimiter))
      else (slice text j N, I, EOF))"
  by pat_completeness auto
termination
  by (relation "measure (\<lambda>(text, N, j, I). N - I)") auto

declare scan_quote.simps [simp del]

declare scan_plain.simps [simp del]

text \<open>Modelled from the spec: \<open>token()\<close> when a field is due, at position \<open>j\<close>.\<close>

definition token :: "string \<Rightarrow> nat \<Rightarrow> nat \<Rightarrow> string \<times> nat \<times> follow" where
  "token text N j =
     (if charCodeAt text j = Some QUOTE then
        (let i = scan_quote text N j;
             t = unescape (slice text (j + 1) (i - 1)) in
         if i \<ge> N then (t, i, EOF)
         else if charCodeAt text i = Some NEWLINE then (t, i + 1, EOL)
         else if charCodeAt text i = Some RETURN then
           (t, (if charCodeAt text (i + 1) = Some NEWLINE then i + 2 else i + 1), EOL)
         else (t, i + 1, Delimiter))
      else scan_plain text N j j)"

text \<open>
  Modelled from the spec: the loops of \<open>parseRows\<close> that collect fields into a row and
  rows into the result. \<open>row\<close> holds the fields of the current record read so far.
\<close>

function rows_from :: "string \<Rightarrow> nat \<Rightarrow> nat \<Rightarrow> string list \<Rightarrow> string list list" where
  "rows_from text N I row =
     (case token text N I of
        (t, I', fl) \<Rightarrow>
          if fl = Delimiter then rows_from text N I' (row @ [t])
          else if fl = EOL then (row @ [t]) # rows_from text N I' []
          else [row @ [t]])"
  by pat_completeness auto
termination
proof -
  have quote: "I + 2 \<le> scan_quote tx N I" for tx N I
  proof (induction tx N I rule: scan_quote.induct)
    case (1 tx N I)
    then show ?case
      by (subst scan_quote.simps) (auto split: if_splits)
  qed
  have plain: "scan_plain tx N j I = (t, I', fl) \<Longrightarrow> fl \<noteq> EOF \<Longrightarrow> I < I' \<and> I' \<le> N + 1"
    for tx N j I t I' fl
  proof (induction tx N j I rule: scan_plain.induct)
    case (1 tx N j I)
    show ?case
    proof (cases "I < N \<and> charCodeAt tx I \<noteq> Some NEWLINE \<and> charCodeAt tx I \<noteq> Some RETURN
                   \<and> charCodeAt tx I \<noteq> Some DELIMITER")
      case True
      then have "scan_plain tx N j I = scan_plain tx N j (I + 1)"
        by (subst scan_plain.simps) simp
      with "1.prems" "1.IH" True show ?thesis by fastforce
    next
      case False
      with "1.prems" show ?thesis
        by (subst (asm) scan_plain.simps) (auto split: if_splits)
    qed
  qed
  have tok: "token tx N j = (t, I', fl) \<Longrightarrow> fl \<noteq> EOF \<Longrightarrow> j < I' \<and> I' \<le> N + 1"
    for tx N j t I' fl
    using quote [of j tx N]
    by (auto simp: token_def Let_def split: if_splits dest: plain)
  show ?thesis
  proof (relation "measure (\<lambda>(text, N, I, row). N + 2 - I)", goal_cases)
    case 1
    show ?case by simp
  next
    case (2 tx N I row t y I' fl)
    then have "token tx N I = (t, I', fl)" and "fl \<noteq> EOF" by simp_all
    from tok [OF this] show ?case by auto
  next
    case (3 tx N I row t y I' fl)
    then have "token tx N I = (t, I', fl)" and "fl \<noteq> EOF" by simp_all
    from tok [OF this] show ?case by auto
  qed
qed

declare rows_from.simps [simp del]

text \<open>
  Modelled from the spec: \<open>parseRows(text)\<close>. The end-of-text flag is set from the length
  of the whole text, before one trailing newline and one trailing return are cut off.
\<close>

definition parseRows :: "string \<Rightarrow> string list list" where
  "parseRows text =
     (let N0 = length text;
          N1 = (if 0 < N0 \<and> charCodeAt text (N0 - 1) = Some NEWLINE then N0 - 1 else N0);
          N = (if 0 < N1 \<and> charCodeAt text (N1 - 1) = Some RETURN then N1 - 1 else N1)
      in if N0 \<le> 0 then [] else rows_from text N 0 [])"

text \<open>Modelled from the spec: \<open>d[i] || ""\<close> for a record \<open>d\<close> of fields.\<close>

definition field :: "string list \<Rightarrow> nat \<Rightarrow> string" where
  "field d i = (if i < length d \<and> d ! i \<noteq> '''' then d ! i else '''')"

text \<open>
  Modelled from the spec: the object literal that the converter of a header evaluates for
  a record \<open>d\<close>, property by property from column \<open>i\<close> on. In an object literal the
  name \<open>__proto__\<close> sets the prototype, which a string value leaves alone, and defines
  no property.
\<close>

fun object_literal ::
  "string list \<Rightarrow> nat \<Rightarrow> string list \<Rightarrow> (string \<times> string) list \<Rightarrow> (string \<times> string) list" where
  "object_literal [] i d obj = obj"
| "object_literal (column # columns) i d obj =
     object_literal columns (Suc i) d
       (if column = ''__proto__'' then obj else define_property obj column (field d i))"

text \<open>
  Modelled from the spec: \<open>objectConverter(columns)\<close> compiles the object literal with
  \<open>new Function\<close>; a literal that names \<open>__proto__\<close> twice is a syntax error.
\<close>

definition objectConverter ::
  "string list \<Rightarrow> js_error + (string list \<Rightarrow> (string \<times> string) list)" where
  "objectConverter columns =
     (if 1 < count_list columns ''__proto__'' then Inl SyntaxError
      else Inr (\<lambda>d. object_literal columns 0 d []))"

text \<open>
  Modelled from the spec: \<open>autoType\<close> replaces the value of every property, in place, by
  its typed value. \<open>infer\<close> is the conversion of one field, the parameter.
\<close>

definition autoType :: "(string \<Rightarrow> 'cell) \<Rightarrow> (string \<times> string) list \<Rightarrow> (string \<times> 'cell) list" where
  "autoType infer object = map (\<lambda>(key, v). (key, infer v)) object"

text \<open>
  Modelled from the spec: \<open>d3.csvParse(text, d3.autoType)\<close>. The first record is the
  header and gives no row; a text without records gives no rows.
\<close>

definition csvParse ::
  "(string \<Rightarrow> 'cell) \<Rightarrow> string \<Rightarrow> js_error + (string \<times> 'cell) list list" where
  "csvParse infer text =
     (case parseRows text of
        [] \<Rightarrow> Inr []
      | columns # records \<Rightarrow>
          (case objectConverter columns of
             Inl e \<Rightarrow> Inl e
           | Inr object \<Rightarrow> Inr (map (\<lambda>d. autoType infer (object d)) records)))"

text \<open>
  The state of a session: the build environment, the six state variables of \<open>App\<close>, the
  requests issued so far, and the callbacks registered so far (a slot is \<open>None\<close> once its
  promise or reader has settled). A preview row is a row object of the CSV parser;
  \<open>'cell\<close> is the type of its typed values.
\<close>

record 'cell state =
  NODE_ENV :: string
  message :: string
  response :: "message list"
  "file" :: "File option"
  dragActive :: bool
  csvData :: "(string \<times> 'cell) list list option"
  showPreview :: bool
  requests :: "request list"
  pending :: "callback option list"

definition url :: "string \<Rightarrow> string" where
  "url node_env =
     (if node_env = ''production'' then ''https://sutulas.github.io/HAI-Assignment-2/''
      else ''http://127.0.0.1:8000/'')"

definition init :: "string \<Rightarrow> 'cell state" where
  "init node_env =
     \<lparr>NODE_ENV = node_env,
      message = '''',
      response = [Bot_message (JStr ''Upload a CSV file and then ask visualization questions'')],
      file = None,
      dragActive = False,
      csvData = None,
      showPreview = False,
      requests = [],
      pending = []\<rparr>"

section \<open>Sending a message\<close>

text \<open>
  The handler of a user event belongs to the latest render, so it reads the state
  variables as they are when the event arrives; a state setter called in it changes the
  next state and not the variables it goes on reading. A promise callback reads the
  variables of the render that created it. So \<open>sendMessage\<close> reads \<open>message\<close> and
  \<open>response\<close> of the current state, and the closure of its \<open>.then\<close> callback keeps the
  conversation as it was before the user message was added.
\<close>

definition sendMessage :: "'cell state \<Rightarrow> 'cell state" where
  "sendMessage s =
     (if message s = '''' then s
      else
        let newMessage = User_message (message s) in
        s\<lparr>response := response s @ [newMessage],
          requests := requests s @
            [\<lparr>resource = url (NODE_ENV s) @ ''query'',
              http_method = ''POST'',
              body = Json_body (JObj [(''prompt'', JStr (message s))]),
              headers = [(''Content-Type'', ''application/json'')]\<rparr>],
          pending := pending s @ [Some (Query_then (response s) newMessage)],
          message := ''''\<rparr>)"

text \<open>
  The callback \<open>data => {...}\<close> of a query, with the \<open>response\<close> and \<open>newMessage\<close> of
  its closure. \<open>data.response\<close> throws when \<open>data\<close> is \<open>null\<close>; nothing catches it.
\<close>

definition query_then ::
  "message list \<Rightarrow> message \<Rightarrow> jsval \<Rightarrow> 'cell state \<Rightarrow> js_error + 'cell state" where
  "query_then response0 newMessage data s =
     (case get_prop data ''response'' of
        Inl e \<Rightarrow> Inl e
      | Inr text \<Rightarrow>
          let botResponse = Bot_message text in
          (case get_prop data ''chart'' of
             Inl e \<Rightarrow> Inl e
           | Inr chart \<Rightarrow>
               if truthy chart then
                 let botChartResponse = Bot_chart_message chart in
                 Inr (s\<lparr>response := response0 @ [newMessage, botChartResponse, botResponse]\<rparr>)
               else Inr (s\<lparr>response := response0 @ [newMessage, botResponse]\<rparr>)))"

definition handleMessage :: "string \<Rightarrow> 'cell state \<Rightarrow> 'cell state" where
  "handleMessage v s = s\<lparr>message := v\<rparr>"

definition handleKeyDown :: "string \<Rightarrow> 'cell state \<Rightarrow> 'cell state" where
  "handleKeyDown key s = (if key = ''Enter'' then sendMessage s else s)"

section \<open>Taking a file\<close>

text \<open>\<open>files[0]\<close> of a \<open>FileList\<close>: \<open>undefined\<close> when the list is empty.\<close>

fun item0 :: "File list \<Rightarrow> File option" where
  "item0 [] = None"
| "item0 (f # fs) = Some f"

text \<open>\<open>file && file.type === 'text/csv'\<close>: \<open>undefined\<close> itself for a missing file.\<close>

fun isCSV :: "File option \<Rightarrow> jsval" where
  "isCSV None = JUndefined"
| "isCSV (Some f) = JBool (type f = ''text/csv'')"

text \<open>
  \<open>parseCSV\<close> starts a reader and registers its \<open>onload\<close>; \<open>readAsText\<close> throws on
  a value that is not a file. The \<open>onload\<close> callback parses the text with the library's
  parser and keeps \<open>slice(0, 50)\<close> of the rows; what the parser throws, it throws.
\<close>

definition parseCSV :: "File option \<Rightarrow> 'cell state \<Rightarrow> js_error + 'cell state" where
  "parseCSV f s =
     (case f of
        None \<Rightarrow> Inl TypeError
      | Some blob \<Rightarrow> Inr (s\<lparr>pending := pending s @ [Some (Reader_onload blob)]\<rparr>))"

definition reader_onload ::
  "(string \<Rightarrow> 'cell) \<Rightarrow> string \<Rightarrow> 'cell state \<Rightarrow> js_error + 'cell state" where
  "reader_onload infer text s =
     (case csvParse infer text of
        Inl e \<Rightarrow> Inl e
      | Inr parsedData \<Rightarrow> Inr (s\<lparr>csvData := Some (take 50 parsedData)\<rparr>))"

definition sendFile :: "File option \<Rightarrow> 'cell state \<Rightarrow> 'cell state" where
  "sendFile uploadedFile s =
     (case uploadedFile of
        None \<Rightarrow> s
      | Some f \<Rightarrow>
          s\<lparr>requests := requests s @
              [\<lparr>resource = url (NODE_ENV s) @ ''uploadfile/'',
                http_method = ''POST'',
                body = Form_data [(''file'', f)],
                headers = []\<rparr>],
            pending := pending s @ [Some (Upload_catch (response s))]\<rparr>)"

text \<open>The \<open>.catch\<close> callback of an upload, with the \<open>response\<close> of its closure.\<close>

definition upload_catch :: "message list \<Rightarrow> 'cell state \<Rightarrow> 'cell state" where
  "upload_catch response0 s =
     (let botResponse = Bot_message (JStr ''Error processing file.'') in
      s\<lparr>response := response0 @ [botResponse]\<rparr>)"

definition handleFileUpload :: "File list \<Rightarrow> 'cell state \<Rightarrow> js_error + 'cell state" where
  "handleFileUpload files s =
     (let uploadedFile = item0 files in
      if \<not> truthy (isCSV uploadedFile) then
        let botResponse = Bot_message (JStr ''Error: Please upload a valid CSV file.'') in
        Inr (s\<lparr>response := response s @ [botResponse]\<rparr>)
      else
        (case parseCSV uploadedFile (s\<lparr>file := uploadedFile\<rparr>) of
           Inl e \<Rightarrow> Inl e
         | Inr s' \<Rightarrow> Inr (sendFile uploadedFile s')))"

definition handleDrag :: "'cell state \<Rightarrow> 'cell state" where
  "handleDrag s = s\<lparr>dragActive := True\<rparr>"

definition handleDragLeave :: "'cell state \<Rightarrow> 'cell state" where
  "handleDragLeave s = s\<lparr>dragActive := False\<rparr>"

definition handleDrop :: "File list \<Rightarrow> 'cell state \<Rightarrow> js_error + 'cell state" where
  "handleDrop files s =
     (let s0 = s\<lparr>dragActive := False\<rparr>;
          droppedFile = item0 files in
      if \<not> truthy (isCSV droppedFile) then
        let botResponse = Bot_message (JStr ''Error: Please upload a valid CSV file.'') in
        Inr (s0\<lparr>response := response s @ [botResponse]\<rparr>)
      else
        (case parseCSV droppedFile (s0\<lparr>file := droppedFile\<rparr>) of
           Inl e \<Rightarrow> Inl e
         | Inr s' \<Rightarrow> Inr (sendFile droppedFile s')))"

definition togglePreview :: "'cell state \<Rightarrow> 'cell state" where
  "togglePreview s = s\<lparr>showPreview := \<not> showPreview s\<rparr>"

section \<open>The event loop\<close>

text \<open>
  How the promise \<open>fetch(...).then(response => response.json())\<close> settles: the transport
  rejects, the body is not JSON, or the body decodes to a value.
\<close>

datatype fetch_result = Rejected | Json_failed | Json jsval

datatype event =
    Input string
  | KeyDown string
  | Click_send
  | File_change "File list"
  | Drag
  | Drag_leave
  | Drop "File list"
  | Toggle_preview
  | Query_settled nat fetch_result
  | Upload_settled nat fetch_result
  | Reader_loaded nat

definition slot :: "'cell state \<Rightarrow> nat \<Rightarrow> callback option" where
  "slot s i = (if i < length (pending s) then pending s ! i else None)"

definition settle :: "nat \<Rightarrow> 'cell state \<Rightarrow> 'cell state" where
  "settle i s = s\<lparr>pending := (pending s)[i := None]\<rparr>"

text \<open>
  One turn of the event loop. A settling promise runs the callback registered for it, once;
  a query that fails has no callback to run.
\<close>

fun fire :: "(string \<Rightarrow> 'cell) \<Rightarrow> event \<Rightarrow> 'cell state \<Rightarrow> js_error + 'cell state" where
  "fire infer (Input v) s = Inr (handleMessage v s)"
| "fire infer (KeyDown key) s = Inr (handleKeyDown key s)"
| "fire infer Click_send s = Inr (sendMessage s)"
| "fire infer (File_change files) s = handleFileUpload files s"
| "fire infer Drag s = Inr (handleDrag s)"
| "fire infer Drag_leave s = Inr (handleDragLeave s)"
| "fire infer (Drop files) s = handleDrop files s"
| "fire infer Toggle_preview s = Inr (togglePreview s)"
| "fire infer (Query_settled i r) s =
     (case slot s i of
        Some (Query_then response0 newMessage) \<Rightarrow>
          (case r of
             Json data \<Rightarrow> query_then response0 newMessage data (settle i s)
           | _ \<Rightarrow> Inr (settle i s))
      | _ \<Rightarrow> Inr s)"
| "fire infer (Upload_settled i r) s =
     (case slot s i of
        Some (Upload_catch response0) \<Rightarrow>
          (case r of
             Json data \<Rightarrow> Inr (settle i s)
           | _ \<Rightarrow> Inr (upload_catch response0 (settle i s)))
      | _ \<Rightarrow> Inr s)"
| "fire infer (Reader_loaded i) s =
     (case slot s i of
        Some (Reader_onload f) \<Rightarrow> reader_onload infer (content f) (settle i s)
      | _ \<Rightarrow> Inr s)"

text \<open>
  A callback that throws leaves a rejected promise nobody handles: its slot is used up and
  the state variables stay as they were.
\<close>

fun thrown :: "event \<Rightarrow> 'cell state \<Rightarrow> 'cell state" where
  "thrown (Query_settled i r) s = settle i s"
| "thrown (Reader_loaded i) s = settle i s"
| "thrown ev s = s"

definition step :: "(string \<Rightarrow> 'cell) \<Rightarrow> event \<Rightarrow> 'cell state \<Rightarrow> 'cell state" where
  "step infer ev s = (case fire infer ev s of Inl e \<Rightarrow> thrown ev s | Inr s' \<Rightarrow> s')"

fun run :: "(string \<Rightarrow> 'cell) \<Rightarrow> event list \<Rightarrow> 'cell state \<Rightarrow> 'cell state" where
  "run infer [] s = s"
| "run infer (ev # evs) s = run infer evs (step infer ev s)"

section \<open>Registered callbacks stay registered\<close>




section \<open>Sending\<close>

text \<open>
  C2. With an empty input text \<open>sendMessage\<close> returns the state as it is: no state variable
  changes and no request is issued. With any other text, whitespace included, the
  conversation gains exactly the user message with that text at its end, and exactly one
  request is issued: a POST to the query endpoint whose JSON body is the object with the
  single field \<open>prompt\<close> holding that text.
\<close>

theorem sendMessage_empty_or_one_query:
  "(message s = '''' \<longrightarrow> sendMessage s = s) \<and>
   (message s \<noteq> '''' \<longrightarrow>
      response (sendMessage s) = response s @ [User_message (message s)] \<and>
      requests (sendMessage s) = requests s @
        [\<lparr>resource = url (NODE_ENV s) @ ''query'', http_method = ''POST'',
          body = Json_body (JObj [(''prompt'', JStr (message s))]),
          headers = [(''Content-Type'', ''application/json'')]\<rparr>])"
  by (simp add: sendMessage_def Let_def)

theorem sendMessage_empty_or_one_query_witness:
  "message (init ''production'' :: jsval state) = '''' \<and>
   sendMessage (init ''production'' :: jsval state) = init ''production'' \<and>
   message (handleMessage ''  '' (init ''production'' :: jsval state)) \<noteq> '''' \<and>
   response (sendMessage (handleMessage ''  '' (init ''production'' :: jsval state))) =
     [Bot_message (JStr ''Upload a CSV file and then ask visualization questions''),
      User_message ''  ''] \<and>
   requests (sendMessage (handleMessage ''  '' (init ''production'' :: jsval state))) =
     [\<lparr>resource = ''https://sutulas.github.io/HAI-Assignment-2/query'', http_method = ''POST'',
       body = Json_body (JObj [(''prompt'', JStr ''  '')]),
       headers = [(''Content-Type'', ''application/json'')]\<rparr>]"
  using sendMessage_empty_or_one_query [of "init ''production'' :: jsval state"]
        sendMessage_empty_or_one_query
          [of "handleMessage ''  '' (init ''production'' :: jsval state)"]
  by (simp add: init_def handleMessage_def url_def)

text \<open>
  C9. Once \<open>sendMessage\<close> has dispatched a non-empty message the input text is empty, and it
  is still empty after the query settles, however it settles: rejected, undecodable, or
  decoded to any value.
\<close>

theorem input_cleared_at_dispatch:
  assumes "message s \<noteq> ''''"
  shows "message (sendMessage s) = '''' \<and>
         message (step infer (Query_settled (length (pending s)) r) (sendMessage s)) = ''''"
  using assms
  by (cases r)
     (auto simp: sendMessage_def Let_def step_def slot_def settle_def query_then_def
        split: sum.splits)

theorem input_cleared_at_dispatch_witness:
  "message (handleMessage ''hello'' (init ''development'' :: jsval state)) \<noteq> '''' \<and>
   message (sendMessage (handleMessage ''hello'' (init ''development'' :: jsval state))) = '''' \<and>
   message (step JStr (Query_settled 0 Rejected)
     (sendMessage (handleMessage ''hello'' (init ''development'' :: jsval state)))) = ''''"
  using input_cleared_at_dispatch
    [of "handleMessage ''hello'' (init ''development'' :: jsval state)"
        JStr Rejected]
  by (simp add: init_def handleMessage_def)

text \<open>
  C8. When the promise of a query is rejected by the transport, or its body is not JSON,
  no callback of the program runs: the turn only uses up the slot of the promise. The input
  text, the conversation (with the user message added at dispatch), the file, the preview
  and the requests are what they were, and no error message appears.
\<close>

theorem query_failure_dropped:
  assumes "slot s i = Some (Query_then response0 newMessage)"
      and "r = Rejected \<or> r = Json_failed"
  shows "fire infer (Query_settled i r) s = Inr (s\<lparr>pending := (pending s)[i := None]\<rparr>)"
  using assms by (auto simp: settle_def)

theorem query_failure_dropped_witness:
  "slot (sendMessage (handleMessage ''hello'' (init ''development'' :: jsval state))) 0 =
     Some (Query_then [Bot_message (JStr ''Upload a CSV file and then ask visualization questions'')]
            (User_message ''hello'')) \<and>
   fire JStr (Query_settled 0 Json_failed)
     (sendMessage (handleMessage ''hello'' (init ''development'' :: jsval state))) =
   Inr ((sendMessage (handleMessage ''hello'' (init ''development'')))\<lparr>pending := [None]\<rparr>) \<and>
   response (sendMessage (handleMessage ''hello'' (init ''development'' :: jsval state))) =
     [Bot_message (JStr ''Upload a CSV file and then ask visualization questions''),
      User_message ''hello'']"
  using query_failure_dropped
    [of "sendMessage (handleMessage ''hello'' (init ''development'' :: jsval state))" 0
        "[Bot_message (JStr ''Upload a CSV file and then ask visualization questions'')]"
        "User_message ''hello''" Json_failed JStr]
  by (simp add: init_def handleMessage_def sendMessage_def slot_def Let_def)

section \<open>Folding a query response into the conversation\<close>

text \<open>
  C1, as the claim states it, fails on a body that has a \<open>chart\<close> field holding \<open>null\<close>:
  the body \<open>{"response": "x", "chart": null}\<close>, answering the message \<open>hi\<close> sent from
  the initial state, adds the bot text message alone and no chart message.
\<close>

theorem chart_field_null_counterexample:
  "map_of [(''response'', JStr ''x''), (''chart'', JNull)] ''chart'' = Some JNull \<and>
   slot (sendMessage (handleMessage ''hi'' (init ''production'' :: jsval state))) 0 =
     Some (Query_then (response (init ''production'' :: jsval state))
            (User_message ''hi'')) \<and>
   query_then (response (init ''production'' :: jsval state)) (User_message ''hi'')
     (JObj [(''response'', JStr ''x''), (''chart'', JNull)])
     (sendMessage (handleMessage ''hi'' (init ''production'' :: jsval state))) =
   Inr ((sendMessage (handleMessage ''hi'' (init ''production'')))
          \<lparr>response := response (init ''production'' :: jsval state) @
             [User_message ''hi'', Bot_message (JStr ''x'')]\<rparr>) \<and>
   query_then (response (init ''production'' :: jsval state)) (User_message ''hi'')
     (JObj [(''response'', JStr ''x''), (''chart'', JNull)])
     (sendMessage (handleMessage ''hi'' (init ''production'' :: jsval state))) \<noteq>
   Inr ((sendMessage (handleMessage ''hi'' (init ''production'')))
          \<lparr>response := response (init ''production'' :: jsval state) @
             [User_message ''hi'', Bot_chart_message JNull, Bot_message (JStr ''x'')]\<rparr>)"
  by (simp add: query_then_def init_def handleMessage_def sendMessage_def slot_def Let_def)

text \<open>
  C1, amended. When the body of a query response decodes to a value whose \<open>response\<close> and
  \<open>chart\<close> members can be read (any value but \<open>null\<close>), the conversation becomes the
  one the callback holds, then the user message of that query, then the new bot messages:
  if the value of \<open>chart\<close> is truthy, exactly two, the bot-chart message with that chart
  and after it the bot message with the \<open>response\<close> text; if \<open>chart\<close> is missing or
  falsy, exactly one, the bot message with the text.
\<close>

theorem query_response_bot_messages:
  assumes "slot s i = Some (Query_then response0 newMessage)"
      and "get_prop data ''response'' = Inr text"
      and "get_prop data ''chart'' = Inr chart"
  shows "fire infer (Query_settled i (Json data)) s =
         Inr (settle i s\<lparr>response := response0 @ [newMessage] @
           (if truthy chart then [Bot_chart_message chart, Bot_message text]
            else [Bot_message text])\<rparr>)"
  using assms by (simp add: query_then_def Let_def)

theorem query_response_bot_messages_witness:
  "slot (sendMessage (handleMessage ''plot'' (init ''production'' :: jsval state))) 0 =
     Some (Query_then [Bot_message (JStr ''Upload a CSV file and then ask visualization questions'')]
            (User_message ''plot'')) \<and>
   get_prop (JObj [(''response'', JStr ''done''), (''chart'', JObj [(''mark'', JStr ''bar'')])]) ''response''
     = Inr (JStr ''done'') \<and>
   get_prop (JObj [(''response'', JStr ''done''), (''chart'', JObj [(''mark'', JStr ''bar'')])]) ''chart''
     = Inr (JObj [(''mark'', JStr ''bar'')]) \<and>
   fire JStr (Query_settled 0
       (Json (JObj [(''response'', JStr ''done''), (''chart'', JObj [(''mark'', JStr ''bar'')])])))
     (sendMessage (handleMessage ''plot'' (init ''production'' :: jsval state))) =
   Inr ((sendMessage (handleMessage ''plot'' (init ''production'')))
     \<lparr>pending := [None],
      response := [Bot_message (JStr ''Upload a CSV file and then ask visualization questions''),
        User_message ''plot'', Bot_chart_message (JObj [(''mark'', JStr ''bar'')]),
        Bot_message (JStr ''done'')]\<rparr>)"
  using query_response_bot_messages
    [of "sendMessage (handleMessage ''plot'' (init ''production'' :: jsval state))" 0
        "[Bot_message (JStr ''Upload a CSV file and then ask visualization questions'')]"
        "User_message ''plot''"
        "JObj [(''response'', JStr ''done''), (''chart'', JObj [(''mark'', JStr ''bar'')])]"
        "JStr ''done''" "JObj [(''mark'', JStr ''bar'')]" JStr]
  by (simp add: init_def handleMessage_def sendMessage_def slot_def settle_def Let_def)

text \<open>
  C4, as the claim states it, fails on a response whose body is \<open>null\<close>. The message \<open>a\<close>
  is sent, then \<open>b\<close> is sent and answered, then the answer to \<open>a\<close> arrives with the body
  \<open>null\<close>: the callback throws at \<open>data.response\<close>, and the conversation stays the live
  one, with the exchange of \<open>b\<close> in it, not the one captured when \<open>a\<close> was sent.
\<close>

theorem null_body_keeps_live_conversation_counterexample:
  "response (run JStr
      [Input ''a'', Click_send, Input ''b'', Click_send,
       Query_settled 1 (Json (JObj [(''response'', JStr ''rb'')]))] (init ''production'')) =
     [Bot_message (JStr ''Upload a CSV file and then ask visualization questions''),
      User_message ''a'', User_message ''b'', Bot_message (JStr ''rb'')] \<and>
   slot (run JStr
      [Input ''a'', Click_send, Input ''b'', Click_send,
       Query_settled 1 (Json (JObj [(''response'', JStr ''rb'')]))] (init ''production'')) 0 =
     Some (Query_then
       [Bot_message (JStr ''Upload a CSV file and then ask visualization questions'')]
       (User_message ''a'')) \<and>
   fire JStr (Query_settled 0 (Json JNull)) (run JStr
      [Input ''a'', Click_send, Input ''b'', Click_send,
       Query_settled 1 (Json (JObj [(''response'', JStr ''rb'')]))] (init ''production'')) =
     Inl TypeError \<and>
   response (step JStr (Query_settled 0 (Json JNull)) (run JStr
      [Input ''a'', Click_send, Input ''b'', Click_send,
       Query_settled 1 (Json (JObj [(''response'', JStr ''rb'')]))] (init ''production''))) =
     [Bot_message (JStr ''Upload a CSV file and then ask visualization questions''),
      User_message ''a'', User_message ''b'', Bot_message (JStr ''rb'')]"
  by (simp add: step_def init_def handleMessage_def sendMessage_def slot_def settle_def
        query_then_def Let_def)



text \<open>
  C3. The conversation is not append-only. Two messages are sent before the first answer
  arrives: the turn that folds the first answer in takes the second user message out of the
  conversation, so the conversation before the turn is no prefix of the one after it.
\<close>

theorem overlapping_query_removes_message:
  "response (run infer [Input ''a'', Click_send, Input ''b'', Click_send] (init env)) =
     [Bot_message (JStr ''Upload a CSV file and then ask visualization questions''),
      User_message ''a'', User_message ''b''] \<and>
   response (step infer (Query_settled 0 (Json (JObj [(''response'', JStr ''ra'')])))
      (run infer [Input ''a'', Click_send, Input ''b'', Click_send] (init env))) =
     [Bot_message (JStr ''Upload a CSV file and then ask visualization questions''),
      User_message ''a'', Bot_message (JStr ''ra'')] \<and>
   \<not> prefix
     (response (run infer [Input ''a'', Click_send, Input ''b'', Click_send] (init env)))
     (response (step infer (Query_settled 0 (Json (JObj [(''response'', JStr ''ra'')])))
        (run infer [Input ''a'', Click_send, Input ''b'', Click_send] (init env))))"
  by (simp add: step_def init_def handleMessage_def sendMessage_def slot_def settle_def
        query_then_def Let_def)

section \<open>Files\<close>

text \<open>No handler of a user event throws: the test of \<open>isCSV\<close> guards the reader.\<close>

lemma user_event_returns:
  assumes "\<And>i r. ev \<noteq> Query_settled i r" and "\<And>i. ev \<noteq> Reader_loaded i"
  shows "\<exists>s'. fire infer ev s = Inr s'"
proof (cases ev)
  case (File_change files)
  then show ?thesis
    by (cases files) (simp_all add: handleFileUpload_def parseCSV_def Let_def)
next
  case (Drop files)
  then show ?thesis
    by (cases files) (simp_all add: handleDrop_def parseCSV_def Let_def)
next
  case (Query_settled i r)
  then show ?thesis using assms by simp
next
  case (Reader_loaded i)
  then show ?thesis using assms by simp
qed (simp_all split: option.splits callback.splits fetch_result.splits)

text \<open>
  C5, as the claim states it, fails for a drop: the drag-active flag, set while the file
  was dragged over the area, is reset, so not all other state is unchanged.
\<close>

theorem drop_non_csv_resets_drag_counterexample:
  "type \<lparr>name = ''notes.txt'', type = ''text/plain'', content = ''hello''\<rparr> \<noteq> ''text/csv'' \<and>
   dragActive (handleDrag (init ''production'' :: jsval state)) \<and>
   handleDrop [\<lparr>name = ''notes.txt'', type = ''text/plain'', content = ''hello''\<rparr>]
     (handleDrag (init ''production'' :: jsval state)) =
   Inr ((handleDrag (init ''production''))
     \<lparr>response := response (handleDrag (init ''production'' :: jsval state)) @
        [Bot_message (JStr ''Error: Please upload a valid CSV file.'')],
      dragActive := False\<rparr>) \<and>
   handleDrop [\<lparr>name = ''notes.txt'', type = ''text/plain'', content = ''hello''\<rparr>]
     (handleDrag (init ''production'' :: jsval state)) \<noteq>
   Inr ((handleDrag (init ''production''))
     \<lparr>response := response (handleDrag (init ''production'' :: jsval state)) @
        [Bot_message (JStr ''Error: Please upload a valid CSV file.'')]\<rparr>)"
  by (simp add: handleDrop_def handleDrag_def init_def Let_def)

text \<open>
  C5, amended. For a first file whose declared media type is not exactly \<open>text/csv\<close>:
  the file picker's handler returns without throwing, and the state it returns is the
  state before with exactly one bot message, the text
  \<open>Error: Please upload a valid CSV file.\<close>, added at the end of the conversation; the
  drop handler does the same and also sets the drag-active flag to false. The current file,
  the preview rows, the input text, the preview toggle, the requests and the registered
  callbacks are unchanged, so no upload is issued.
\<close>

theorem non_csv_file_rejected:
  assumes "item0 files = Some f" and "type f \<noteq> ''text/csv''"
  shows "fire infer (File_change files) s =
           Inr (s\<lparr>response := response s @
                  [Bot_message (JStr ''Error: Please upload a valid CSV file.'')]\<rparr>) \<and>
         fire infer (Drop files) s =
           Inr (s\<lparr>response := response s @
                  [Bot_message (JStr ''Error: Please upload a valid CSV file.'')],
                  dragActive := False\<rparr>)"
  using assms by (simp add: handleFileUpload_def handleDrop_def Let_def)

theorem non_csv_file_rejected_witness:
  "item0 [\<lparr>name = ''sheet.xls'', type = ''application/vnd.ms-excel'', content = ''a,b''\<rparr>] =
     Some \<lparr>name = ''sheet.xls'', type = ''application/vnd.ms-excel'', content = ''a,b''\<rparr> \<and>
   type \<lparr>name = ''sheet.xls'', type = ''application/vnd.ms-excel'', content = ''a,b''\<rparr>
     \<noteq> ''text/csv'' \<and>
   fire JStr
     (File_change [\<lparr>name = ''sheet.xls'', type = ''application/vnd.ms-excel'', content = ''a,b''\<rparr>])
     (init ''production'' :: jsval state) =
   Inr ((init ''production'')\<lparr>response :=
     [Bot_message (JStr ''Upload a CSV file and then ask visualization questions''),
      Bot_message (JStr ''Error: Please upload a valid CSV file.'')]\<rparr>) \<and>
   fire JStr
     (Drop [\<lparr>name = ''sheet.xls'', type = ''application/vnd.ms-excel'', content = ''a,b''\<rparr>])
     (init ''production'' :: jsval state) =
   Inr ((init ''production'')\<lparr>response :=
     [Bot_message (JStr ''Upload a CSV file and then ask visualization questions''),
      Bot_message (JStr ''Error: Please upload a valid CSV file.'')], dragActive := False\<rparr>)"
  using non_csv_file_rejected
    [of "[\<lparr>name = ''sheet.xls'', type = ''application/vnd.ms-excel'', content = ''a,b''\<rparr>]"
        "\<lparr>name = ''sheet.xls'', type = ''application/vnd.ms-excel'', content = ''a,b''\<rparr>"
        JStr "init ''production'' :: jsval state"]
  by (simp add: init_def)

text \<open>
  C10, as the claim states it, fails for a drop with no file in it: the drag-active flag
  set during the drag is reset, which is a change of state besides the message.
\<close>

theorem drop_empty_list_resets_drag_counterexample:
  "item0 [] = None \<and>
   dragActive (handleDrag (init ''development'' :: jsval state)) \<and>
   handleDrop [] (handleDrag (init ''development'' :: jsval state)) =
   Inr ((handleDrag (init ''development''))
     \<lparr>response := response (handleDrag (init ''development'' :: jsval state)) @
        [Bot_message (JStr ''Error: Please upload a valid CSV file.'')],
      dragActive := False\<rparr>) \<and>
   handleDrop [] (handleDrag (init ''development'' :: jsval state)) \<noteq>
   Inr ((handleDrag (init ''development''))
     \<lparr>response := response (handleDrag (init ''development'' :: jsval state)) @
        [Bot_message (JStr ''Error: Please upload a valid CSV file.'')]\<rparr>)"
  by (simp add: handleDrop_def handleDrag_def init_def Let_def)

text \<open>
  C10, amended. With an empty file list the first file is missing, \<open>isCSV\<close> returns
  \<open>undefined\<close>, which is falsy, and neither handler throws: the file picker's handler adds
  the one bot message \<open>Error: Please upload a valid CSV file.\<close> and changes nothing else;
  the drop handler adds it and sets the drag-active flag to false. Both results are the
  results of the same event carrying a file that is not a CSV.
\<close>

theorem empty_file_list_rejected:
  "isCSV (item0 []) = JUndefined \<and> \<not> truthy (isCSV (item0 [])) \<and>
   fire infer (File_change []) s =
     Inr (s\<lparr>response := response s @
            [Bot_message (JStr ''Error: Please upload a valid CSV file.'')]\<rparr>) \<and>
   fire infer (Drop []) s =
     Inr (s\<lparr>response := response s @
            [Bot_message (JStr ''Error: Please upload a valid CSV file.'')],
            dragActive := False\<rparr>) \<and>
   (type f \<noteq> ''text/csv'' \<longrightarrow>
      fire infer (File_change []) s = fire infer (File_change (f # fs)) s \<and>
      fire infer (Drop []) s = fire infer (Drop (f # fs)) s)"
  by (simp add: handleFileUpload_def handleDrop_def Let_def)

theorem empty_file_list_rejected_witness:
  "type \<lparr>name = ''a.png'', type = ''image/png'', content = ''''\<rparr> \<noteq> ''text/csv'' \<and>
   fire JStr (File_change []) (init ''development'' :: jsval state) =
     Inr ((init ''development'')\<lparr>response :=
       [Bot_message (JStr ''Upload a CSV file and then ask visualization questions''),
        Bot_message (JStr ''Error: Please upload a valid CSV file.'')]\<rparr>) \<and>
   fire JStr (File_change []) (init ''development'' :: jsval state) =
     fire JStr (File_change [\<lparr>name = ''a.png'', type = ''image/png'', content = ''''\<rparr>])
       (init ''development'') \<and>
   fire JStr (Drop []) (init ''development'' :: jsval state) =
     fire JStr (Drop [\<lparr>name = ''a.png'', type = ''image/png'', content = ''''\<rparr>])
       (init ''development'')"
  using empty_file_list_rejected
    [of JStr "init ''development'' :: jsval state"
        "\<lparr>name = ''a.png'', type = ''image/png'', content = ''''\<rparr>" "[]"]
  by (simp add: init_def handleFileUpload_def handleDrop_def Let_def)



text \<open>
  C6, as the claim states it, fails on a header with names that are array indices: for the
  file \<open>b,2,1\<close> / \<open>x,y,z\<close> the stored row has its columns in the order \<open>1, 2, b\<close>, not
  in the order of the header.
\<close>

theorem header_with_index_names_counterexample:
  "parseRows ''b,2,1\<newline>x,y,z'' = [[''b'', ''2'', ''1''], [''x'', ''y'', ''z'']] \<and>
   csvData (step JStr (Reader_loaded 0)
     (step JStr
        (File_change [\<lparr>name = ''data.csv'', type = ''text/csv'', content = ''b,2,1\<newline>x,y,z''\<rparr>])
        (init ''production''))) =
     Some [[(''1'', JStr ''z''), (''2'', JStr ''y''), (''b'', JStr ''x'')]] \<and>
   csvData (step JStr (Reader_loaded 0)
     (step JStr
        (File_change [\<lparr>name = ''data.csv'', type = ''text/csv'', content = ''b,2,1\<newline>x,y,z''\<rparr>])
        (init ''production''))) \<noteq>
     Some [[(''b'', JStr ''x''), (''2'', JStr ''y''), (''1'', JStr ''z'')]]"
proof -
  have rows: "parseRows ''b,2,1\<newline>x,y,z'' = [[''b'', ''2'', ''1''], [''x'', ''y'', ''z'']]"
    by code_simp
  have object: "object_literal [''b'', ''2'', ''1''] 0 [''x'', ''y'', ''z''] [] =
      [(''1'', ''z''), (''2'', ''y''), (''b'', ''x'')]"
    by (simp add: define_property_def array_index_def digit_def field_def)
  show ?thesis
    by (simp add: rows object step_def handleFileUpload_def parseCSV_def sendFile_def init_def
          slot_def settle_def reader_onload_def csvParse_def objectConverter_def autoType_def
          Let_def del: object_literal.simps)
qed



text \<open>Whatever the outcome of an upload, the turn that settles it leaves the preview alone.\<close>

lemma upload_outcome_keeps_preview:
  "csvData (step infer (Upload_settled i r) s) = csvData s"
  by (simp add: step_def settle_def upload_catch_def Let_def
        split: option.splits callback.splits fetch_result.splits)

text \<open>
  C7. A CSV file is taken and read, a message is sent while the upload is in flight, then
  the upload is rejected. The preview is kept, but the error message is not added to the
  conversation as it stands: the conversation becomes the one from the time the file was
  taken plus the error message, and the user message sent since is gone.
\<close>

theorem upload_failure_removes_message:
  "response (run infer
      [File_change [\<lparr>name = ''data.csv'', type = ''text/csv'', content = ''a,b\<newline>1,2''\<rparr>],
       Reader_loaded 0, Input ''hi'', Click_send] (init env)) =
     [Bot_message (JStr ''Upload a CSV file and then ask visualization questions''),
      User_message ''hi''] \<and>
   response (step infer (Upload_settled 1 Rejected) (run infer
      [File_change [\<lparr>name = ''data.csv'', type = ''text/csv'', content = ''a,b\<newline>1,2''\<rparr>],
       Reader_loaded 0, Input ''hi'', Click_send] (init env))) =
     [Bot_message (JStr ''Upload a CSV file and then ask visualization questions''),
      Bot_message (JStr ''Error processing file.'')] \<and>
   csvData (step infer (Upload_settled 1 Rejected) (run infer
      [File_change [\<lparr>name = ''data.csv'', type = ''text/csv'', content = ''a,b\<newline>1,2''\<rparr>],
       Reader_loaded 0, Input ''hi'', Click_send] (init env))) =
     Some [[(''a'', infer ''1''), (''b'', infer ''2'')]]"
proof -
  have rows: "parseRows ''a,b\<newline>1,2'' = [[''a'', ''b''], [''1'', ''2'']]"
    by code_simp
  have object: "object_literal [''a'', ''b''] 0 [''1'', ''2''] [] = [(''a'', ''1''), (''b'', ''2'')]"
    by (simp add: define_property_def array_index_def digit_def field_def)
  show ?thesis
    by (simp add: rows object step_def init_def handleMessage_def sendMessage_def slot_def
          settle_def handleFileUpload_def parseCSV_def sendFile_def reader_onload_def
          csvParse_def objectConverter_def autoType_def upload_catch_def Let_def
          del: object_literal.simps)
qed

end
